theory Spec2Isabelle
  imports Complex_Main
begin

section \<open>Fault-plane geometry of \<^verbatim>\<open>wasp/fault_plane.py\<close>\<close>

text \<open>
  The module works on Python floats and NumPy doubles. A finite double is a real number,
  and the model computes on real numbers; how the machine rounds is a parameter of the
  model (subsection on the arithmetic below), except in the three functions whose
  properties do not depend on the last digit: the coordinate transform, the fault-plane
  planner and the rise-time estimator are written with the arithmetic of the reals.
  Python integers are \<open>int\<close>. Every exception the module can raise on the paths modelled
  here is a value of \<open>error\<close>, and a function that can raise returns \<open>error + 'a\<close>.
\<close>

subsection \<open>Errors and Python primitives\<close>

datatype error =
    GeometryError          \<comment> \<open>\<^verbatim>\<open>Exception("Point source is above the ground!")\<close>\<close>
  | ZeroDivisionError
  | ValueError
  | OverflowError
  | TypeError
  | IndexError
  | UnboundLocalError
  | LinAlgError

text \<open>\<^verbatim>\<open>int(x)\<close> on a float truncates toward zero.\<close>

definition py_int :: "real \<Rightarrow> int" where
  "py_int x = (if 0 \<le> x then \<lfloor>x\<rfloor> else \<lceil>x\<rceil>)"

definition deg2rad :: real where
  "deg2rad = pi / 180"

text \<open>Sequencing of computations that may raise.\<close>

definition bind_err :: "error + 'a \<Rightarrow> ('a \<Rightarrow> error + 'b) \<Rightarrow> error + 'b" where
  "bind_err m f = (case m of Inl e \<Rightarrow> Inl e | Inr x \<Rightarrow> f x)"

subsection \<open>The arithmetic of the machine\<close>

text \<open>
  The sum, difference, product, quotient, power, square root, sine and cosine of doubles
  are doubles again: the machine rounds the exact result, and the library functions are
  not even bound to the nearest double. Which double comes out decides what \<^verbatim>\<open>int\<close>
  truncates and what a comparison sees, so these operations are not fixed here: they
  are the fields of a record, every function that rounds takes such a record as its
  first argument, and the properties are proved for every record. A decimal literal of
  the program stands for the double nearest to it; an operation given a literal is the
  machine's operation on that double. Comparison, negation, \<^verbatim>\<open>max\<close>, \<^verbatim>\<open>min\<close>, the truncation
  \<^verbatim>\<open>int\<close>, the conversion of a Python \<^verbatim>\<open>int\<close> of ordinary size to a float, the sum of such an
  \<^verbatim>\<open>int\<close> and 0.5, and the division of such an \<^verbatim>\<open>int\<close> by 2.0 are exact on doubles and are
  written with the operations of the reals. The one comparison with a literal that is
  not a double, \<^verbatim>\<open>dep < 0.1\<close>, has the same value for every double \<^verbatim>\<open>dep\<close> whether 0.1 or
  the double nearest to it is meant, since that double lies above 0.1 with no double
  in between. A result too large for a double is outside the model.
\<close>

record float_arith =
  fl_add :: "real \<Rightarrow> real \<Rightarrow> real"
  fl_sub :: "real \<Rightarrow> real \<Rightarrow> real"
  fl_mul :: "real \<Rightarrow> real \<Rightarrow> real"
  fl_div :: "real \<Rightarrow> real \<Rightarrow> real"
  fl_floor_div :: "real \<Rightarrow> real \<Rightarrow> real"
  fl_pow :: "real \<Rightarrow> real \<Rightarrow> real"
  fl_sqrt :: "real \<Rightarrow> real"
  fl_sin :: "real \<Rightarrow> real"
  fl_cos :: "real \<Rightarrow> real"

text \<open>
  The arithmetic that does not round, used to run the model on inputs where rounding
  does not change what is truncated or compared.
\<close>

definition exact_arith :: float_arith where
  "exact_arith =
     \<lparr>fl_add = (\<lambda>x y. x + y),
      fl_sub = (\<lambda>x y. x - y),
      fl_mul = (\<lambda>x y. x * y),
      fl_div = (\<lambda>x y. x / y),
      fl_floor_div = (\<lambda>x y. real_of_int \<lfloor>x / y\<rfloor>),
      fl_pow = (\<lambda>x y. if y = 2 then x * x else x powr y),
      fl_sqrt = sqrt,
      fl_sin = sin,
      fl_cos = cos\<rparr>"

text \<open>
  A division of NumPy doubles by zero raises nothing: the quotient is an infinity, or
  NaN for \<open>0 / 0\<close>. Where the module divides by a number that can be zero, the quotient
  is a value of the following type. The sign of a zero divisor is taken to be positive.
\<close>

datatype np_float = Finite real | PlusInf | MinusInf | NaN

definition np_div :: "float_arith \<Rightarrow> real \<Rightarrow> real \<Rightarrow> np_float" where
  "np_div fp a b =
     (if b = 0 then (if a > 0 then PlusInf else if a < 0 then MinusInf else NaN)
      else Finite (fl_div fp a b))"

text \<open>\<^verbatim>\<open>c * v\<close> for a double \<open>c\<close> and such a quotient \<open>v\<close>, and \<^verbatim>\<open>a > v\<close> for a double \<open>a\<close>.\<close>

definition np_mul :: "float_arith \<Rightarrow> real \<Rightarrow> np_float \<Rightarrow> np_float" where
  "np_mul fp c v =
     (case v of
        Finite s \<Rightarrow> Finite (fl_mul fp c s)
      | PlusInf \<Rightarrow> (if c > 0 then PlusInf else if c < 0 then MinusInf else NaN)
      | MinusInf \<Rightarrow> (if c > 0 then MinusInf else if c < 0 then PlusInf else NaN)
      | NaN \<Rightarrow> NaN)"

definition np_greater :: "real \<Rightarrow> np_float \<Rightarrow> bool" where
  "np_greater a v =
     (case v of
        Finite s \<Rightarrow> a > s
      | PlusInf \<Rightarrow> False
      | MinusInf \<Rightarrow> True
      | NaN \<Rightarrow> False)"

text \<open>
  \<^verbatim>\<open>np.linalg.inv\<close> of a 2x2 matrix and \<^verbatim>\<open>np.dot\<close> of such a matrix and a vector are library
  routines: parameters as well. A matrix is given by its rows.
\<close>

type_synonym matrix2 = "(real \<times> real) \<times> (real \<times> real)"

record numpy_linalg =
  np_inv :: "matrix2 \<Rightarrow> error + matrix2"
  np_dot :: "matrix2 \<Rightarrow> real \<times> real \<Rightarrow> real \<times> real"

text \<open>The exact inverse and product; a singular matrix is refused with LinAlgError.\<close>

definition exact_linalg :: numpy_linalg where
  "exact_linalg =
     \<lparr>np_inv = (\<lambda>m. case m of ((a, b), (c, d)) \<Rightarrow>
                 if a * d - b * c = 0 then Inl LinAlgError
                 else Inr ((d / (a * d - b * c), - b / (a * d - b * c)),
                           (- c / (a * d - b * c), a / (a * d - b * c)))),
      np_dot = (\<lambda>m v. case m of ((a, b), (c, d)) \<Rightarrow>
                 case v of (v1, v2) \<Rightarrow> (a * v1 + b * v2, c * v1 + d * v2))\<rparr>"

subsection \<open>The dictionaries of the module as records\<close>

record tensor_info =
  time_shift :: real
  depth :: real
  moment_mag :: real
  lat :: real
  lon :: real
  centroid_lat :: real
  centroid_lon :: real

record plane_info =
  strike :: real
  dip :: real
  rake :: real
  rupture_vel :: real

text \<open>
  \<^verbatim>\<open>_point_sources_def\<close> is called with a dictionary that holds the two spacings only;
  the planner's dictionary (\<^verbatim>\<open>__subfaults_properties\<close>) extends it.
\<close>

record subfault_size =
  delta_strike :: real
  delta_dip :: real

record fault_dimensions = subfault_size +
  delay_segment :: real
  stk_subfaults :: int
  dip_subfaults :: int

record rise_time_param =
  min_rise :: real
  delta_rise :: real
  windows :: int

record point_sources_general =
  strike_ps :: int
  dip_ps :: int
  dx :: real
  dy :: real

record epicenter_location =
  hyp_stk :: int
  hyp_dip :: int

subsection \<open>\<^verbatim>\<open>__default_vel_of_eq\<close> and the choice of the rupture velocity\<close>

text \<open>
  The first estimate of the half-duration, \<^verbatim>\<open>1.2 * 10**-8 * moment_mag ** (1 / 3)\<close>, in the
  order in which Python evaluates it, and the ratio that is compared with 3.
\<close>

definition half_duration :: "float_arith \<Rightarrow> 't tensor_info_scheme \<Rightarrow> real" where
  "half_duration fp t =
     fl_mul fp (fl_mul fp 1.2 (fl_pow fp 10 (- 8)))
       (fl_pow fp (moment_mag t) (fl_div fp 1 3))"

definition delay_ratio :: "float_arith \<Rightarrow> 't tensor_info_scheme \<Rightarrow> real" where
  "delay_ratio fp t = fl_div fp (time_shift t) (half_duration fp t)"

text \<open>
  \<^verbatim>\<open>moment_mag ** (1 / 3)\<close> is a complex number for a negative base, and the comparison
  with 3 then raises TypeError; when the estimate is zero, as it is for a zero base, the
  division of Python floats raises ZeroDivisionError.
\<close>

definition default_vel_of_eq :: "float_arith \<Rightarrow> 't tensor_info_scheme \<Rightarrow> error + real" where
  "default_vel_of_eq fp t =
     (let default_vel = 2.5;
          default_vel = (if depth t > 100 then 3.0 else default_vel);
          default_vel = (if depth t > 300 then 3.6 else default_vel)
      in if moment_mag t < 0 then Inl TypeError
         else if half_duration fp t = 0 then Inl ZeroDivisionError
         else if delay_ratio fp t > 3 then Inr 1.5
         else Inr default_vel)"

text \<open>
  Line 67 of \<^verbatim>\<open>create_finite_fault\<close>:
  \<^verbatim>\<open>rupture_vel = __default_vel_of_eq(tensor_info) if not rupture_vel else rupture_vel\<close>.
  \<^verbatim>\<open>not rupture_vel\<close> holds for \<^verbatim>\<open>None\<close> and for 0.
\<close>

definition resolve_rupture_vel ::
  "float_arith \<Rightarrow> 't tensor_info_scheme \<Rightarrow> real option \<Rightarrow> error + real" where
  "resolve_rupture_vel fp t rv =
     (case rv of
        None \<Rightarrow> default_vel_of_eq fp t
      | Some v \<Rightarrow> if v = 0 then default_vel_of_eq fp t else Inr v)"

subsection \<open>\<^verbatim>\<open>__lat_lon\<close>\<close>

definition lat_lon :: "real \<Rightarrow> real \<Rightarrow> real \<Rightarrow> real \<Rightarrow> real \<Rightarrow> real \<Rightarrow> real \<times> real" where
  "lat_lon stk dp x y lat0 lon0 =
     (let cos_stk = cos (stk * deg2rad);
          sin_stk = sin (stk * deg2rad);
          cos_dip = cos (dp * deg2rad);
          degree = 111.12;
          lat_ref = lat0 + (x * cos_stk - y * cos_dip * sin_stk) / degree;
          lon_ref = lon0 + (x * sin_stk + y * cos_dip * cos_stk) / degree
                      / cos (lat0 * deg2rad)
      in (lat_ref, lon_ref))"

subsection \<open>\<^verbatim>\<open>_point_sources_def\<close>\<close>

text \<open>
  The first division is between Python floats, so a zero \<^verbatim>\<open>delta\<close> raises
  ZeroDivisionError before anything else is computed. The quotients that \<^verbatim>\<open>int\<close> truncates
  are the rounded ones.
\<close>

definition force_odd :: "int \<Rightarrow> int" where
  "force_odd n = (if n mod 2 = 0 then n + 1 else n)"

definition point_sources_def ::
  "float_arith \<Rightarrow> rise_time_param \<Rightarrow> real \<Rightarrow> 'a subfault_size_scheme
     \<Rightarrow> error + point_sources_general" where
  "point_sources_def fp rise_time rv fault_dims =
     (let t1 = delta_rise rise_time;
          delta = fl_mul fp t1 rv
      in if delta = 0 then Inl ZeroDivisionError
         else
           let strike_ps0 = py_int (fl_div fp (delta_strike fault_dims) delta) + 1;
               dip_ps0 = min (py_int (fl_div fp (delta_dip fault_dims) delta) + 1) 17;
               strike_ps1 = force_odd strike_ps0;
               dip_ps1 = force_odd dip_ps0
           in Inr \<lparr>strike_ps = strike_ps1, dip_ps = dip_ps1,
                    dx = fl_div fp (delta_strike fault_dims) (real_of_int strike_ps1),
                    dy = fl_div fp (delta_dip fault_dims) (real_of_int dip_ps1)\<rparr>)"

subsection \<open>\<^verbatim>\<open>__fault_plane_properties\<close>\<close>

text \<open>
  \<^verbatim>\<open>np.sqrt\<close> of a negative number is NaN, \<^verbatim>\<open>max(nan, 1.0)\<close> is NaN, and
  \<^verbatim>\<open>int(max_length / delta_strike)\<close> then raises ValueError: the first branch below.
\<close>

definition fault_plane_properties ::
  "real \<Rightarrow> 't tensor_info_scheme \<Rightarrow> plane_info \<Rightarrow> real \<Rightarrow> error + fault_dimensions" where
  "fault_plane_properties eq_time t p water_level =
     (let dp = dip p;
          default_vel = rupture_vel p;
          dep = depth t;
          dist_hypo_surface = max (dep - water_level) (0.8 * dep) / sin (dp * pi / 180);
          max_length = default_vel * eq_time;
          max_width = min 300 (min max_length (2 * dist_hypo_surface));
          max_width = max max_width 30
      in if max_width * max_length / 225 < 0 then Inl ValueError
         else
           let size0 = sqrt (max_width * max_length / 225);
               delta_strike0 = max size0 1;
               delta_dip0 = max size0 1;
               stk = min (py_int (max_length / delta_strike0)) 45;
               stk = (if stk mod 2 = 0 then stk + 1 else stk);
               max_length = 1.2 * max_length;
               delta_strike1 = max_length / real_of_int stk;
               dips = min (max (py_int (max_width / delta_dip0)) 3) 15;
               dips = (if dips mod 2 = 0 then dips + 1 else dips);
               delta_dip1 =
                 (if dist_hypo_surface < delta_dip0
                  then max (max_width / real_of_int dips) (1.9 * dist_hypo_surface)
                  else 0.99 * max_width / real_of_int dips)
           in Inr \<lparr>delta_strike = delta_strike1, delta_dip = delta_dip1,
                    delay_segment = 0, stk_subfaults = stk, dip_subfaults = dips\<rparr>)"

subsection \<open>\<^verbatim>\<open>__rise_time_parameters\<close>\<close>

definition rise_time_parameters ::
  "'t tensor_info_scheme \<Rightarrow> 'a subfault_size_scheme \<Rightarrow> string list \<Rightarrow> rise_time_param" where
  "rise_time_parameters t fault_dims data_type =
     (let m = max (delta_strike fault_dims) (delta_dip fault_dims);
          (w, dr) =
            (if time_shift t \<le> 10 then (py_int (1.5 * m / 2), 1.0)
             else if time_shift t \<le> 24 then (py_int (1.5 * m / 4), 2.0)
             else if time_shift t \<ge> 48 then (py_int (1.5 * m / 8), 4.0)
             else (py_int (1.5 * m * 6 / time_shift t), time_shift t / 12));
          (w, dr) =
            (if ''tele_body'' \<in> set data_type
             then (max (py_int (1.5 * m / 3)) w, min 1.5 dr)
             else (w, dr));
          (w, dr) =
            (if depth t > 200 then (py_int (1.5 * m / 2), 1.0) else (w, dr))
      in \<lparr>min_rise = dr, delta_rise = dr, windows = w + 2\<rparr>)"

subsection \<open>\<^verbatim>\<open>__hypocenter_location2\<close>\<close>

text \<open>
  The loop \<^verbatim>\<open>for j in range(hyp_dip): if ...: break\<close> followed by \<^verbatim>\<open>hyp_dip = j\<close>:
  the result is the index at which the loop stopped, the last index of the range when the
  test never held, and nothing (\<^verbatim>\<open>j\<close> is unbound) when the range is empty.
\<close>

primrec hyp_dip_scan :: "(int \<Rightarrow> bool) \<Rightarrow> int list \<Rightarrow> int option \<Rightarrow> int option" where
  "hyp_dip_scan c [] last_j = last_j"
| "hyp_dip_scan c (j # js) last_j = (if c j then Some j else hyp_dip_scan c js (Some j))"

text \<open>
  Line 632, \<^verbatim>\<open>surface_dist\<close>: the distance along dip from the hypocenter to the surface. The
  divisor is the NumPy sine, which is zero for a dip of zero: the distance is then an
  infinity or NaN. Line 634 compares half the width of the plane with it, and line 636 is
  the test of the loop.
\<close>

definition surface_dist ::
  "float_arith \<Rightarrow> 't tensor_info_scheme \<Rightarrow> plane_info \<Rightarrow> real \<Rightarrow> np_float" where
  "surface_dist fp t p water_level =
     np_div fp (max (fl_sub fp (depth t) water_level) (fl_mul fp 0.8 (depth t)))
       (fl_sin fp (fl_div fp (fl_mul fp (dip p) pi) 180))"

definition reaches_surface :: "float_arith \<Rightarrow> real \<Rightarrow> int \<Rightarrow> np_float \<Rightarrow> bool" where
  "reaches_surface fp d_dip n_dip sdist \<longleftrightarrow>
     np_greater (fl_div fp (fl_mul fp d_dip (real_of_int n_dip)) 2) sdist"

definition above_surface :: "float_arith \<Rightarrow> real \<Rightarrow> np_float \<Rightarrow> int \<Rightarrow> bool" where
  "above_surface fp d_dip sdist j \<longleftrightarrow>
     np_greater (fl_mul fp d_dip (real_of_int j + 0.5)) (np_mul fp 1.01 sdist)"

text \<open>
  Lines 613 to 627: the offset \<open>(x, y)\<close> of the centroid from the epicenter along strike and
  dip, by the inverse of the matrix that \<^verbatim>\<open>__lat_lon\<close> applies. The cosine of a double is
  never zero, so the two divisions of the second row are divisions of doubles.
\<close>

definition centroid_offset ::
  "float_arith \<Rightarrow> numpy_linalg \<Rightarrow> plane_info \<Rightarrow> 't tensor_info_scheme
     \<Rightarrow> error + real \<times> real" where
  "centroid_offset fp la p t =
     (let deg2rad = fl_div fp pi 180;
          degree = 111.19;
          cos_stk = fl_cos fp (fl_mul fp (strike p) deg2rad);
          sin_stk = fl_sin fp (fl_mul fp (strike p) deg2rad);
          cos_dip = fl_cos fp (fl_mul fp (dip p) deg2rad);
          cos_lat = fl_cos fp (fl_mul fp (lat t) deg2rad);
          matrix =
            ((fl_div fp cos_stk degree, fl_div fp (fl_mul fp (- cos_dip) sin_stk) degree),
             (fl_div fp sin_stk (fl_mul fp degree cos_lat),
              fl_div fp (fl_mul fp cos_dip cos_stk) (fl_mul fp degree cos_lat)))
      in bind_err (np_inv la matrix)
           (\<lambda>inverse.
              Inr (np_dot la inverse
                     (fl_sub fp (centroid_lat t) (lat t),
                      fl_sub fp (centroid_lon t) (lon t)))))"

text \<open>
  \<^verbatim>\<open>-x // delta_strike\<close> is a floor division of NumPy doubles: with a zero divisor it is
  NaN for \<open>x = 0\<close> and an infinity otherwise, which \<^verbatim>\<open>int\<close> refuses with ValueError and
  OverflowError. The grid of \<^verbatim>\<open>_point_sources_def\<close> is computed first and used for
  nothing but two numbers that are not returned; it can raise.
\<close>

definition hypocenter_location2 ::
  "float_arith \<Rightarrow> numpy_linalg \<Rightarrow> plane_info \<Rightarrow> fault_dimensions \<Rightarrow> 't tensor_info_scheme
     \<Rightarrow> real \<Rightarrow> rise_time_param \<Rightarrow> error + epicenter_location" where
  "hypocenter_location2 fp la p fault_dims t water_level rise_time =
     (let n_stk = stk_subfaults fault_dims;
          n_dip = dip_subfaults fault_dims;
          d_stk = delta_strike fault_dims;
          d_dip = delta_dip fault_dims
      in bind_err
           (point_sources_def fp rise_time (rupture_vel p)
              \<lparr>delta_strike = d_stk, delta_dip = d_dip\<rparr>)
           (\<lambda>subfaults2.
              bind_err (centroid_offset fp la p t)
                (\<lambda>(x, y).
                   if d_stk = 0 then Inl (if x = 0 then ValueError else OverflowError)
                   else
                     let hyp_stk0 = py_int (fl_floor_div fp (- x) d_stk)
                                      + py_int (real_of_int n_stk / 2) + 1;
                         hyp_stk1 = max 1 (min n_stk hyp_stk0);
                         sdist = surface_dist fp t p water_level;
                         hyp_dip0 = py_int (real_of_int n_dip / 2) + 1
                     in bind_err
                          (if reaches_surface fp d_dip n_dip sdist
                           then (case hyp_dip_scan (above_surface fp d_dip sdist)
                                        [0..hyp_dip0 - 1] None of
                                   None \<Rightarrow> Inl UnboundLocalError
                                 | Some j \<Rightarrow> Inr j)
                           else Inr hyp_dip0)
                          (\<lambda>hyp_dip1.
                             Inr \<lparr>hyp_stk = (if n_stk > 1 then hyp_stk1 else 1),
                                  hyp_dip = (if n_dip > 1 then hyp_dip1 else 1)\<rparr>))))"

subsection \<open>Segments, connections and Python sequences\<close>

text \<open>
  A segment dictionary is the union of the plane, subfault and hypocenter dictionaries
  (\<^verbatim>\<open>__save_plane_data\<close> builds it by three \<^verbatim>\<open>update\<close> calls), with the optional key
  \<^verbatim>\<open>hypocenter\<close> (latitude, longitude, depth) and the list \<^verbatim>\<open>neighbours\<close>. The record keeps
  the three parts as fields. \<^verbatim>\<open>delay_segment\<close> is read by \<^verbatim>\<open>point_sources_param\<close> into a
  local that is never used.
\<close>

record neighbour_info =
  connect_subfault :: "int \<times> int"
  neighbour :: int
  neighbour_connect_subfault :: "int \<times> int"

record segment =
  plane_tensor :: plane_info
  subfaults :: fault_dimensions
  epicenter_loc :: epicenter_location
  hypocenter :: "(real \<times> real \<times> real) option"
  neighbours :: "neighbour_info list"

record connection =
  segment1 :: int
  segment2 :: int
  segment1_subfault :: "int \<times> int"
  segment2_subfault :: "int \<times> int"

text \<open>
  An entry of \<^verbatim>\<open>ref_coords\<close> is \<^verbatim>\<open>[lat, lon, depth, x_ref, y_ref]\<close>, or the placeholder
  \<^verbatim>\<open>[]\<close> the list is created with (\<open>None\<close>), whose unpacking into five names raises
  ValueError. An entry of \<^verbatim>\<open>hypocenters\<close> is \<^verbatim>\<open>[lat, lon, depth]\<close>.
\<close>

type_synonym ref_coord = "real \<times> real \<times> real \<times> real \<times> real"
type_synonym geo_point = "real \<times> real \<times> real"

text \<open>
  \<^verbatim>\<open>xs[i]\<close> and \<^verbatim>\<open>xs[i] = v\<close>. The position an index denotes in a sequence of a given
  length: the index itself from 0 upward, counted back from the end below 0, and none
  (IndexError) beyond either end.
\<close>

definition py_position :: "nat \<Rightarrow> int \<Rightarrow> nat option" where
  "py_position len i =
     (if 0 \<le> i
      then (if i < int len then Some (nat i) else None)
      else (if - int len \<le> i then Some (nat (int len + i)) else None))"

definition py_index :: "'a list \<Rightarrow> int \<Rightarrow> error + 'a" where
  "py_index xs i =
     (case py_position (length xs) i of
        None \<Rightarrow> Inl IndexError
      | Some k \<Rightarrow> Inr (xs ! k))"

definition py_update :: "'a list \<Rightarrow> int \<Rightarrow> 'a \<Rightarrow> error + 'a list" where
  "py_update xs i v =
     (case py_position (length xs) i of
        None \<Rightarrow> Inl IndexError
      | Some k \<Rightarrow> Inr (xs[k := v]))"

text \<open>\<^verbatim>\<open>range(n)\<close>, empty for \<open>n \<le> 0\<close>.\<close>

definition py_range :: "int \<Rightarrow> nat list" where
  "py_range n = [0..<nat n]"

text \<open>A loop that builds one result per element and stops at the first exception.\<close>

fun map_err :: "('a \<Rightarrow> error + 'b) \<Rightarrow> 'a list \<Rightarrow> error + 'b list" where
  "map_err f [] = Inr []"
| "map_err f (x # xs) =
     (case f x of
        Inl e \<Rightarrow> Inl e
      | Inr y \<Rightarrow> (case map_err f xs of Inl e \<Rightarrow> Inl e | Inr ys \<Rightarrow> Inr (y # ys)))"

subsection \<open>\<^verbatim>\<open>point_sources_param\<close>\<close>

text \<open>\<^verbatim>\<open>nx = int(strike_ps / 2.0 + 0.51)\<close>, \<^verbatim>\<open>ny = int(dip_ps / 2.0 + 0.51)\<close>.\<close>

definition half_grid :: "float_arith \<Rightarrow> int \<Rightarrow> int" where
  "half_grid fp n = py_int (fl_add fp (real_of_int n / 2) 0.51)"

text \<open>
  \<^verbatim>\<open>hyp_stk * delta_strike + nx * dx\<close> and \<^verbatim>\<open>hyp_dip * delta_dip + ny * dy\<close>: the place of the
  hypocenter of a segment along strike and along dip.
\<close>

definition hypo_along ::
  "float_arith \<Rightarrow> int \<Rightarrow> real \<Rightarrow> int \<Rightarrow> real \<Rightarrow> real" where
  "hypo_along fp hyp delta n d =
     fl_add fp (fl_mul fp (real_of_int hyp) delta) (fl_mul fp (real_of_int n) d)"

text \<open>
  Lines 141 to 162: the reference frame of segment 0 at the epicenter, the frame of every
  segment that carries a hypocenter of its own, and the hypocenter of every segment.
\<close>

definition reference_coordinates ::
  "float_arith \<Rightarrow> segment list \<Rightarrow> tensor_info \<Rightarrow> real \<Rightarrow> real \<Rightarrow> point_sources_general
     \<Rightarrow> ref_coord option list \<times> geo_point list" where
  "reference_coordinates fp segs t d_stk d_dip g =
     (let nx = half_grid fp (strike_ps g);
          ny = half_grid fp (dip_ps g);
          seg0 = hd segs;
          x_ref = hypo_along fp (hyp_stk (epicenter_loc seg0)) d_stk nx (dx g);
          y_ref = hypo_along fp (hyp_dip (epicenter_loc seg0)) d_dip ny (dy g);
          ref_coords0 = (replicate (length segs) None)
                          [0 := Some (lat t, lon t, depth t, x_ref, y_ref)];
          ref_coords =
            map2 (\<lambda>seg r.
                    case hypocenter seg of
                      None \<Rightarrow> r
                    | Some (new_lat, new_lon, new_depth) \<Rightarrow>
                        Some (new_lat, new_lon, new_depth,
                              hypo_along fp (hyp_stk (epicenter_loc seg)) d_stk nx (dx g),
                              hypo_along fp (hyp_dip (epicenter_loc seg)) d_dip ny (dy g)))
                 segs ref_coords0;
          hypocenters =
            map (\<lambda>seg. case hypocenter seg of
                          None \<Rightarrow> (lat t, lon t, depth t)
                        | Some h \<Rightarrow> h) segs
      in (ref_coords, hypocenters))"

text \<open>
  \<^verbatim>\<open>y * np.sin(dip * deg2rad) + depth0\<close>, the depth of a point at the offset \<open>y\<close> along dip
  from a reference point of depth \<open>depth0\<close>; \<^verbatim>\<open>deg2rad\<close> is \<^verbatim>\<open>np.pi / 180.0\<close>.
\<close>

definition depth_at :: "float_arith \<Rightarrow> real \<Rightarrow> real \<Rightarrow> real \<Rightarrow> real" where
  "depth_at fp y dp depth0 =
     fl_add fp (fl_mul fp y (fl_sin fp (fl_mul fp dp (fl_div fp pi 180)))) depth0"

text \<open>
  Lines 164 to 182: one connection gives segment2 its frame from the frame of segment1.
  The coordinates of the new reference point are those of \<^verbatim>\<open>__lat_lon\<close>.
\<close>

definition connect ::
  "float_arith \<Rightarrow> segment list \<Rightarrow> real \<Rightarrow> real \<Rightarrow> point_sources_general
     \<Rightarrow> ref_coord option list \<Rightarrow> connection \<Rightarrow> error + ref_coord option list" where
  "connect fp segs d_stk d_dip g ref_coords c =
     bind_err (py_index ref_coords (segment1 c - 1))
       (\<lambda>r. case r of
               None \<Rightarrow> Inl ValueError
             | Some (lat0, lon0, depth0, x_ref0, y_ref0) \<Rightarrow>
                 bind_err (py_index segs (segment1 c - 1))
                   (\<lambda>first_segment.
                      let stk = strike (plane_tensor first_segment);
                          dp = dip (plane_tensor first_segment);
                          (n1_stk, n1_dip) = segment1_subfault c;
                          x = fl_add fp (fl_sub fp (fl_mul fp (real_of_int n1_stk) d_stk) x_ref0)
                                (fl_mul fp (dx g) 0);
                          y = fl_add fp (fl_sub fp (fl_mul fp (real_of_int n1_dip) d_dip) y_ref0)
                                (fl_mul fp (dy g) 0);
                          dep_ref = depth_at fp y dp depth0;
                          (lat_ref, lon_ref) = lat_lon stk dp x y lat0 lon0
                      in bind_err (py_index segs (segment2 c - 1))
                           (\<lambda>second_segment.
                              let (n2_stk, n2_dip) = segment2_subfault c;
                                  x2_ref = fl_mul fp (real_of_int n2_stk) d_stk;
                                  y2_ref = fl_mul fp (real_of_int n2_dip) d_dip
                              in py_update ref_coords (segment2 c - 1)
                                   (Some (lat_ref, lon_ref, dep_ref, x2_ref, y2_ref)))))"

fun connect_all ::
  "float_arith \<Rightarrow> segment list \<Rightarrow> real \<Rightarrow> real \<Rightarrow> point_sources_general
     \<Rightarrow> ref_coord option list \<Rightarrow> connection list \<Rightarrow> error + ref_coord option list" where
  "connect_all fp segs d_stk d_dip g ref_coords [] = Inr ref_coords"
| "connect_all fp segs d_stk d_dip g ref_coords (c # cs) =
     bind_err (connect fp segs d_stk d_dip g ref_coords c)
       (\<lambda>ref_coords'. connect_all fp segs d_stk d_dip g ref_coords' cs)"

text \<open>
  Lines 119 to 182 together: the spacings and rupture velocity of \<^verbatim>\<open>segments[0]\<close>, the
  point-source grid, the frames and the hypocenters. \<^verbatim>\<open>if connections:\<close> skips \<^verbatim>\<open>None\<close> and
  the empty list.
\<close>

definition segment_frames ::
  "float_arith \<Rightarrow> segment list \<Rightarrow> tensor_info \<Rightarrow> rise_time_param \<Rightarrow> connection list option
     \<Rightarrow> error + (real \<times> real \<times> real \<times> point_sources_general
                  \<times> ref_coord option list \<times> geo_point list)" where
  "segment_frames fp segs t rise_time connections =
     (case segs of
        [] \<Rightarrow> Inl IndexError
      | seg0 # _ \<Rightarrow>
          let d_stk = delta_strike (subfaults seg0);
              d_dip = delta_dip (subfaults seg0);
              rv = rupture_vel (plane_tensor seg0)
          in bind_err
               (point_sources_def fp rise_time rv \<lparr>delta_strike = d_stk, delta_dip = d_dip\<rparr>)
               (\<lambda>g. let (ref_coords, hypocenters) =
                          reference_coordinates fp segs t d_stk d_dip g
                    in bind_err
                         (case connections of
                            None \<Rightarrow> Inr ref_coords
                          | Some cs \<Rightarrow> connect_all fp segs d_stk d_dip g ref_coords cs)
                         (\<lambda>ref_coords'.
                            Inr (d_stk, d_dip, rv, g, ref_coords', hypocenters))))"

text \<open>
  \<^verbatim>\<open>(j2 + 1) * delta_strike + (j1 + 1) * dx - x0\<close>, and the same along dip: the offset of the
  point source \<open>j1\<close> of the subfault \<open>j2\<close> from the place \<open>x0\<close>.
\<close>

definition cell_offset ::
  "float_arith \<Rightarrow> nat \<Rightarrow> real \<Rightarrow> nat \<Rightarrow> real \<Rightarrow> real \<Rightarrow> real" where
  "cell_offset fp j2 delta j1 d x0 =
     fl_sub fp (fl_add fp (fl_mul fp (real j2 + 1) delta) (fl_mul fp (real j1 + 1) d)) x0"

text \<open>Lines 220 to 222: the depth of the point source \<open>k1\<close> of the subfault row \<open>k2\<close>.\<close>

definition cell_depth ::
  "float_arith \<Rightarrow> real \<Rightarrow> point_sources_general \<Rightarrow> segment \<Rightarrow> ref_coord \<Rightarrow> nat \<Rightarrow> nat
     \<Rightarrow> real" where
  "cell_depth fp d_dip g seg r k2 k1 =
     (case r of (lat0, lon0, depth0, x0_ref, y0_ref) \<Rightarrow>
        depth_at fp (cell_offset fp k2 d_dip k1 (dy g) y0_ref) (dip (plane_tensor seg)) depth0)"

text \<open>
  Lines 213 to 238: one cell. \<open>distazbaz\<close> is \<^verbatim>\<open>wasp.management._distazbaz\<close>, which is not
  part of the sources at hand and is a parameter here. The seven numbers of a cell are
  latitude, longitude, depth, rupture distance, rupture time, hypocentral distance and
  azimuth. The rupture velocity that divides the distance is not zero: its product with
  the rise time was not, in \<^verbatim>\<open>_point_sources_def\<close>.
\<close>

definition point_source ::
  "float_arith \<Rightarrow> (real \<Rightarrow> real \<Rightarrow> real \<Rightarrow> real \<Rightarrow> real \<times> real \<times> real)
     \<Rightarrow> real \<Rightarrow> real \<Rightarrow> real \<Rightarrow> point_sources_general \<Rightarrow> segment \<Rightarrow> ref_coord \<Rightarrow> geo_point
     \<Rightarrow> nat \<Rightarrow> nat \<Rightarrow> nat \<Rightarrow> nat \<Rightarrow> error + real list" where
  "point_source fp distazbaz d_stk d_dip rv g seg r hypo k2 j2 k1 j1 =
     (case r of (lat0, lon0, depth0, x0_ref, y0_ref) \<Rightarrow>
      case hypo of (hypo_lat, hypo_lon, hypo_depth) \<Rightarrow>
        let nx = half_grid fp (strike_ps g);
            ny = half_grid fp (dip_ps g);
            x_center = hypo_along fp (hyp_stk (epicenter_loc seg)) d_stk nx (dx g);
            y_center = hypo_along fp (hyp_dip (epicenter_loc seg)) d_dip ny (dy g);
            x = cell_offset fp j2 d_stk j1 (dx g) x_center;
            y = cell_offset fp k2 d_dip k1 (dy g) y_center;
            distance = fl_sqrt fp (fl_add fp (fl_pow fp x 2) (fl_pow fp y 2));
            t1 = fl_div fp distance rv;
            x = cell_offset fp j2 d_stk j1 (dx g) x0_ref;
            y = cell_offset fp k2 d_dip k1 (dy g) y0_ref;
            dep = cell_depth fp d_dip g seg r k2 k1
        in if dep < 0.1 then Inl GeometryError
           else
             let (lat1, lon1) =
                   lat_lon (strike (plane_tensor seg)) (dip (plane_tensor seg)) x y lat0 lon0;
                 (dist1, az, baz) = distazbaz lat1 lon1 hypo_lat hypo_lon
             in Inr [lat1, lon1, dep, distance, t1, dist1, az])"

text \<open>
  Lines 189 to 239: the field of one segment. \<^verbatim>\<open>np.zeros\<close> refuses a negative dimension,
  and a segment without a frame fails at the unpacking of \<^verbatim>\<open>ref_coord\<close>; both are ValueError.
\<close>

type_synonym ps_field = "real list list list list list"

definition segment_point_sources ::
  "float_arith \<Rightarrow> (real \<Rightarrow> real \<Rightarrow> real \<Rightarrow> real \<Rightarrow> real \<times> real \<times> real)
     \<Rightarrow> real \<Rightarrow> real \<Rightarrow> real \<Rightarrow> point_sources_general
     \<Rightarrow> segment \<times> ref_coord option \<times> geo_point \<Rightarrow> error + ps_field" where
  "segment_point_sources fp distazbaz d_stk d_dip rv g z =
     (case z of (seg, ref_coord, hypo) \<Rightarrow>
        if dip_subfaults (subfaults seg) < 0 \<or> stk_subfaults (subfaults seg) < 0
           \<or> dip_ps g < 0 \<or> strike_ps g < 0
        then Inl ValueError
        else case ref_coord of
               None \<Rightarrow> Inl ValueError
             | Some r \<Rightarrow>
                 map_err (\<lambda>k2.
                   map_err (\<lambda>j2.
                     map_err (\<lambda>k1.
                       map_err (\<lambda>j1.
                         point_source fp distazbaz d_stk d_dip rv g seg r hypo k2 j2 k1 j1)
                         (py_range (strike_ps g)))
                       (py_range (dip_ps g)))
                     (py_range (stk_subfaults (subfaults seg))))
                   (py_range (dip_subfaults (subfaults seg))))"

definition point_sources_param ::
  "float_arith \<Rightarrow> (real \<Rightarrow> real \<Rightarrow> real \<Rightarrow> real \<Rightarrow> real \<times> real \<times> real)
     \<Rightarrow> segment list \<Rightarrow> tensor_info \<Rightarrow> rise_time_param \<Rightarrow> connection list option
     \<Rightarrow> error + ps_field list" where
  "point_sources_param fp distazbaz segs t rise_time connections =
     bind_err (segment_frames fp segs t rise_time connections)
       (\<lambda>(d_stk, d_dip, rv, g, ref_coords, hypocenters).
          map_err (segment_point_sources fp distazbaz d_stk d_dip rv g)
            (zip segs (zip ref_coords hypocenters)))"

subsection \<open>\<^verbatim>\<open>__source_layer\<close> and \<^verbatim>\<open>shear_modulous\<close>\<close>

record velmodel =
  p_vel :: "real list"
  s_vel :: "real list"
  dens :: "real list"
  thick :: "real list"

definition default_velmodel :: velmodel where
  "default_velmodel =
     \<lparr>p_vel = [5.800, 6.800, 8.080, 8.594, 8.732, 8.871, 9.219, 9.561, 9.902, 10.073,
               10.212, 10.791, 10.869],
      s_vel = [3.200, 3.900, 4.473, 4.657, 4.707, 4.757, 4.981, 5.176, 5.370, 5.467,
               5.543, 5.982, 6.056],
      dens = [2.600, 2.900, 3.3754, 3.4465, 3.4895, 3.5325, 3.7448, 3.8288, 3.9128, 3.9548,
              3.9840, 4.3886, 4.4043],
      thick = [12.000, 9.400, 196.000, 36.000, 108.00, 36.000, 33.333, 100.00, 33.333,
               33.333, 70.000, 25.250, 0.0]\<rparr>"

text \<open>
  The first loop of \<^verbatim>\<open>__source_layer\<close>: \<^verbatim>\<open>cumul_depth[j + 1] = cumul_depth[j] + thick[j]\<close>,
  from \<^verbatim>\<open>cumul_depth[0] = 0\<close>; the sums are rounded.
\<close>

primrec cumul_from :: "float_arith \<Rightarrow> real \<Rightarrow> real list \<Rightarrow> real list" where
  "cumul_from fp c [] = [c]"
| "cumul_from fp c (h # hs) = c # cumul_from fp (fl_add fp c h) hs"

definition cumul_depth :: "float_arith \<Rightarrow> real list \<Rightarrow> real list" where
  "cumul_depth fp thickness = cumul_from fp 0 thickness"

text \<open>
  The second loop stops at the first layer that holds the depth; when no layer does,
  \<^verbatim>\<open>source_layer\<close> is never assigned and the \<^verbatim>\<open>return\<close> raises UnboundLocalError.
\<close>

primrec layer_scan :: "real list \<Rightarrow> real \<Rightarrow> nat list \<Rightarrow> nat option" where
  "layer_scan cd source_depth [] = None"
| "layer_scan cd source_depth (j # js) =
     (if source_depth \<ge> cd ! j \<and> source_depth \<le> cd ! (j + 1) then Some j
      else layer_scan cd source_depth js)"

definition source_layer :: "float_arith \<Rightarrow> real list \<Rightarrow> real \<Rightarrow> error + nat" where
  "source_layer fp thickness source_depth =
     (case layer_scan (cumul_depth fp thickness) source_depth [0..<length thickness] of
        None \<Rightarrow> Inl UnboundLocalError
      | Some j \<Rightarrow> Inr j)"

text \<open>An index that is not negative, into a list or an axis of an array.\<close>

definition nth_err :: "'a list \<Rightarrow> nat \<Rightarrow> error + 'a" where
  "nth_err xs k = (if k < length xs then Inr (xs ! k) else Inl IndexError)"

text \<open>
  \<^verbatim>\<open>depth_sources[i, j, dip_ps // 2, strike_ps // 2]\<close>, where \<^verbatim>\<open>depth_sources\<close> is the
  component 2 of every cell. The array is a nested list here, and the sizes \<^verbatim>\<open>dip_ps\<close>
  and \<^verbatim>\<open>strike_ps\<close> of its third and fourth axes are the lengths met on the way; an axis of
  size 0 has no index 0.
\<close>

definition centre_depth :: "ps_field \<Rightarrow> nat \<Rightarrow> nat \<Rightarrow> error + real" where
  "centre_depth f i j =
     (let sub = f ! i ! j
      in bind_err (nth_err sub (length sub div 2))
           (\<lambda>line. bind_err (nth_err line (length line div 2))
              (\<lambda>cell. nth_err cell 2)))"

text \<open>\<^verbatim>\<open>float(vel_s[layer]) ** 2 * float(dens[layer]) * 10**10\<close>.\<close>

definition rigidity :: "float_arith \<Rightarrow> real \<Rightarrow> real \<Rightarrow> real" where
  "rigidity fp vs de = fl_mul fp (fl_mul fp (fl_pow fp vs 2) de) (10 ^ 10)"

definition subfault_shear ::
  "float_arith \<Rightarrow> velmodel \<Rightarrow> ps_field \<Rightarrow> nat \<Rightarrow> nat \<Rightarrow> error + real" where
  "subfault_shear fp vm f i j =
     bind_err (centre_depth f i j)
       (\<lambda>dep_p. bind_err (source_layer fp (thick vm) dep_p)
          (\<lambda>layer. bind_err (nth_err (s_vel vm) layer)
             (\<lambda>vs. bind_err (nth_err (dens vm) layer)
                (\<lambda>de. Inr (rigidity fp vs de)))))"

text \<open>\<^verbatim>\<open>if not velmodel\<close>: no model given, the default table is used.\<close>

definition chosen_velmodel :: "velmodel option \<Rightarrow> velmodel" where
  "chosen_velmodel vm_opt = (case vm_opt of None \<Rightarrow> default_velmodel | Some v \<Rightarrow> v)"

definition shear_modulous ::
  "float_arith \<Rightarrow> ps_field list \<Rightarrow> velmodel option \<Rightarrow> error + real list list list" where
  "shear_modulous fp point_sources vm_opt =
     (let vm = chosen_velmodel vm_opt
      in map_err (\<lambda>point_sources_seg.
           map_err (\<lambda>i.
             map_err (\<lambda>j. subfault_shear fp vm point_sources_seg i j)
               [0..<length (point_sources_seg ! i)])
             [0..<length point_sources_seg])
           point_sources)"

text \<open>
  For the statement of the layer lookup: the boundary depth above layer \<open>l\<close> is the sum of
  the thicknesses of the layers before it, added up from the top as the machine adds.
\<close>

definition boundary :: "float_arith \<Rightarrow> real list \<Rightarrow> nat \<Rightarrow> real" where
  "boundary fp thickness l = foldl (fl_add fp) 0 (take l thickness)"

text \<open>The centre point source of a subfault, at \<^verbatim>\<open>dip_ps // 2\<close> and \<^verbatim>\<open>strike_ps // 2\<close>.\<close>

definition centre_cell :: "real list list list \<Rightarrow> real list" where
  "centre_cell sub = (let line = sub ! (length sub div 2) in line ! (length line div 2))"

text \<open>
  A field as NumPy holds it: a rectangular array of \<open>n_stk\<close> subfaults in every row, each a
  grid of \<open>n_dps\<close> by \<open>n_sps\<close> cells of at least three numbers.
\<close>

definition rectangular :: "ps_field \<Rightarrow> nat \<Rightarrow> nat \<Rightarrow> nat \<Rightarrow> bool" where
  "rectangular f n_stk n_dps n_sps \<longleftrightarrow>
     list_all (\<lambda>row. length row = n_stk
       \<and> list_all (\<lambda>sub. length sub = n_dps
            \<and> list_all (\<lambda>line. length line = n_sps
                 \<and> list_all (\<lambda>cell. 3 \<le> length cell) line) sub) row) f"

subsection \<open>The two output files: \<^verbatim>\<open>Event_mult.in\<close> and \<^verbatim>\<open>segments_data.json\<close>\<close>

text \<open>
  \<^verbatim>\<open>__write_event_mult_in\<close> reads the origin time from the key \<^verbatim>\<open>date_origin\<close> of the tensor
  dictionary, of which it uses the year, the month, the day of the year and the hour.
\<close>

record origin_time =
  year :: int
  month :: int
  julday :: int
  hour :: int

record dated_tensor_info = tensor_info +
  date_origin :: origin_time

text \<open>
  The text file is a list of lines, each a list of the numbers that \<^verbatim>\<open>"{}".format\<close> has
  written and \<^verbatim>\<open>line.split()\<close> finds again. A Python \<^verbatim>\<open>int\<close> is written as its decimal digits; a
  \<^verbatim>\<open>float\<close> is written with a point or an exponent, as the shortest text that \<^verbatim>\<open>float\<close> reads
  back to the same number. \<^verbatim>\<open>float\<close> reads both forms, \<^verbatim>\<open>int\<close> raises ValueError on the
  second.
\<close>

datatype token = IntLit int | FloatLit real

definition py_float_of :: "token \<Rightarrow> error + real" where
  "py_float_of tok = (case tok of IntLit n \<Rightarrow> Inr (real_of_int n) | FloatLit x \<Rightarrow> Inr x)"

definition py_int_of :: "token \<Rightarrow> error + int" where
  "py_int_of tok = (case tok of IntLit n \<Rightarrow> Inr n | FloatLit x \<Rightarrow> Inl ValueError)"

definition write_event_mult_in ::
  "dated_tensor_info \<Rightarrow> plane_info \<Rightarrow> fault_dimensions \<Rightarrow> epicenter_location
     \<Rightarrow> rise_time_param \<Rightarrow> token list list" where
  "write_event_mult_in t p sf ep rt =
     (let datetime = date_origin t;
          yr = IntLit (year datetime);
          mo = IntLit (month datetime);
          dy = IntLit (julday datetime);
          hr = IntLit (hour datetime);
          mag = moment_mag t * (1 / 10 ^ 7);
          dt = 0.2
      in [[yr, mo, dy, hr],
          [FloatLit (strike p), FloatLit (dip p), FloatLit (rake p), FloatLit mag],
          [FloatLit (lat t), FloatLit (lon t), yr, mo, dy, hr],
          [FloatLit dt, IntLit 10, IntLit 0],
          [FloatLit (min_rise rt), FloatLit (delta_rise rt), IntLit (windows rt)],
          [FloatLit (rupture_vel p)],
          [IntLit 1, FloatLit (delta_strike sf), FloatLit (delta_dip sf)],
          [IntLit 1],
          [FloatLit (dip p), FloatLit (strike p), FloatLit (rake p), IntLit 1],
          [IntLit (stk_subfaults sf), IntLit (dip_subfaults sf), IntLit 0],
          [IntLit (hyp_stk ep), IntLit (hyp_dip ep), IntLit 1, FloatLit (depth t)]])"

record segments_data =
  segments :: "segment list"
  rise_time :: rise_time_param

definition save_plane_data ::
  "plane_info \<Rightarrow> fault_dimensions \<Rightarrow> epicenter_location \<Rightarrow> rise_time_param
     \<Rightarrow> segments_data" where
  "save_plane_data p sf ep rt =
     \<lparr>segments = [\<lparr>plane_tensor = p, subfaults = sf, epicenter_loc = ep,
                    hypocenter = None, neighbours = []\<rparr>],
      rise_time = rt\<rparr>"

text \<open>\<^verbatim>\<open>lines[r][c]\<close>, and its reading as a \<^verbatim>\<open>float\<close> or an \<^verbatim>\<open>int\<close>.\<close>

definition field_at :: "token list list \<Rightarrow> nat \<Rightarrow> nat \<Rightarrow> error + token" where
  "field_at lines r c = bind_err (nth_err lines r) (\<lambda>line. nth_err line c)"

definition float_at :: "token list list \<Rightarrow> nat \<Rightarrow> nat \<Rightarrow> error + real" where
  "float_at lines r c = bind_err (field_at lines r c) py_float_of"

definition int_at :: "token list list \<Rightarrow> nat \<Rightarrow> nat \<Rightarrow> error + int" where
  "int_at lines r c = bind_err (field_at lines r c) py_int_of"

text \<open>
  The loop over the segments of \<^verbatim>\<open>event_mult_in_to_json\<close>. Its state is \<^verbatim>\<open>index0\<close>, the line
  before the block of the segment, and the list of the dictionaries read so far, here the
  result of the recursion. The first segment has no neighbour and a block of four lines,
  every other one has one neighbour and a block of six.
\<close>

fun read_segments ::
  "token list list \<Rightarrow> real \<Rightarrow> real \<Rightarrow> real \<Rightarrow> nat list \<Rightarrow> nat
     \<Rightarrow> error + segment list" where
  "read_segments lines rupt_vel d_stk d_dip [] index0 = Inr []"
| "read_segments lines rupt_vel d_stk d_dip (i_segment # rest) index0 =
     bind_err (float_at lines (index0 + 1) 0) (\<lambda>dp.
     bind_err (float_at lines (index0 + 1) 1) (\<lambda>stk.
     bind_err (float_at lines (index0 + 1) 2) (\<lambda>rk.
     bind_err (int_at lines (index0 + 2) 0) (\<lambda>n_stk.
     bind_err (int_at lines (index0 + 2) 1) (\<lambda>n_dip.
     bind_err (float_at lines (index0 + 2) 2) (\<lambda>delay.
     bind_err (int_at lines (index0 + 3) 0) (\<lambda>h_stk.
     bind_err (int_at lines (index0 + 3) 1) (\<lambda>h_dip.
     bind_err
       (if i_segment = 0 then Inr ([], index0 + 4)
        else
          bind_err (int_at lines (index0 + 4) 0) (\<lambda>nb.
          bind_err (int_at lines (index0 + 4) 2) (\<lambda>stk_connect.
          bind_err (int_at lines (index0 + 4) 3) (\<lambda>dip_connect.
          bind_err (int_at lines (index0 + 5) 0) (\<lambda>stk_connect2.
          bind_err (int_at lines (index0 + 5) 1) (\<lambda>dip_connect2.
            Inr ([\<lparr>connect_subfault = (stk_connect2, dip_connect2),
                    neighbour = nb - 1,
                    neighbour_connect_subfault = (stk_connect, dip_connect)\<rparr>],
                 index0 + 6)))))))
       (\<lambda>(nbs, index1).
          bind_err (read_segments lines rupt_vel d_stk d_dip rest index1) (\<lambda>segs.
            Inr (\<lparr>plane_tensor =
                    \<lparr>strike = stk, dip = dp, rake = rk, rupture_vel = rupt_vel\<rparr>,
                  subfaults =
                    \<lparr>delta_strike = d_stk, delta_dip = d_dip, delay_segment = delay,
                     stk_subfaults = n_stk, dip_subfaults = n_dip\<rparr>,
                  epicenter_loc = \<lparr>hyp_stk = h_stk, hyp_dip = h_dip\<rparr>,
                  hypocenter = None,
                  neighbours = nbs\<rparr> # segs)))))))))))"

text \<open>
  \<^verbatim>\<open>event_mult_in_to_json\<close> returns nothing; its result is the document it writes to
  \<^verbatim>\<open>segments_data.json\<close>.
\<close>

definition event_mult_in_to_json :: "token list list \<Rightarrow> error + segments_data" where
  "event_mult_in_to_json lines =
     bind_err (float_at lines 4 0) (\<lambda>t1.
     bind_err (float_at lines 4 1) (\<lambda>t2.
     bind_err (int_at lines 4 2) (\<lambda>w.
     bind_err (float_at lines 5 0) (\<lambda>rupt_vel.
     bind_err (float_at lines 6 1) (\<lambda>d_stk.
     bind_err (float_at lines 6 2) (\<lambda>d_dip.
     bind_err (int_at lines 6 0) (\<lambda>n_segments.
     bind_err (read_segments lines rupt_vel d_stk d_dip (py_range n_segments) 7) (\<lambda>segs.
       Inr \<lparr>segments = segs,
            rise_time = \<lparr>min_rise = t1, delta_rise = t2, windows = w\<rparr>\<rparr>))))))))"

subsection \<open>\<^verbatim>\<open>create_finite_fault\<close>\<close>

record nodal_plane =
  np_strike :: real
  np_dip :: real
  np_rake :: real

text \<open>The two files that \<^verbatim>\<open>create_finite_fault\<close> leaves in the output directory.\<close>

record written_files =
  event_mult_in :: "token list list"
  segments_data_json :: segments_data

definition create_finite_fault ::
  "float_arith \<Rightarrow> numpy_linalg \<Rightarrow> dated_tensor_info \<Rightarrow> nodal_plane \<Rightarrow> string list \<Rightarrow> real
     \<Rightarrow> real option \<Rightarrow> error + written_files" where
  "create_finite_fault fp la t np data_type water_level rv =
     bind_err (resolve_rupture_vel fp t rv) (\<lambda>vel.
       let p = \<lparr>strike = np_strike np, dip = np_dip np, rake = np_rake np,
                rupture_vel = vel\<rparr>;
           eq_time = 2 * time_shift t + 0.75 * time_shift t
       in bind_err (fault_plane_properties eq_time t p water_level) (\<lambda>sf.
            let rt = rise_time_parameters t sf data_type
            in bind_err (hypocenter_location2 fp la p sf t water_level rt) (\<lambda>hyp_location.
                 Inr \<lparr>event_mult_in = write_event_mult_in t p sf hyp_location rt,
                      segments_data_json = save_plane_data p sf hyp_location rt\<rparr>)))"

subsection \<open>Notions used to state the properties of the generator\<close>

text \<open>A result that is a value or the geometry error, and no other exception.\<close>

definition geo_only :: "error + 'a \<Rightarrow> bool" where
  "geo_only r \<longleftrightarrow> (case r of Inl e \<Rightarrow> e = GeometryError | Inr _ \<Rightarrow> True)"

text \<open>A complete field: the four grid dimensions, and seven numbers in every cell.\<close>

definition has_shape :: "ps_field \<Rightarrow> int \<Rightarrow> int \<Rightarrow> int \<Rightarrow> int \<Rightarrow> bool" where
  "has_shape f n_dip n_stk n_dps n_sps \<longleftrightarrow>
     int (length f) = n_dip
     \<and> list_all (\<lambda>row. int (length row) = n_stk
          \<and> list_all (\<lambda>sub. int (length sub) = n_dps
               \<and> list_all (\<lambda>line. int (length line) = n_sps
                    \<and> list_all (\<lambda>cell. length cell = 7) line) sub) row) f"

text \<open>
  A segment with other spacings and another rupture velocity, everything else kept; and
  the relation of two segments that differ in nothing but these three entries and the
  entries the generator does not look at (rake, delay, neighbours).
\<close>

definition respace :: "real \<Rightarrow> real \<Rightarrow> real \<Rightarrow> segment \<Rightarrow> segment" where
  "respace a b v seg =
     seg\<lparr>subfaults := (subfaults seg)\<lparr>delta_strike := a, delta_dip := b\<rparr>,
         plane_tensor := (plane_tensor seg)\<lparr>rupture_vel := v\<rparr>\<rparr>"

definition same_geometry :: "segment \<Rightarrow> segment \<Rightarrow> bool" where
  "same_geometry s s' \<longleftrightarrow>
     strike (plane_tensor s) = strike (plane_tensor s')
     \<and> dip (plane_tensor s) = dip (plane_tensor s')
     \<and> stk_subfaults (subfaults s) = stk_subfaults (subfaults s')
     \<and> dip_subfaults (subfaults s) = dip_subfaults (subfaults s')
     \<and> epicenter_loc s = epicenter_loc s'
     \<and> hypocenter s = hypocenter s'"

text \<open>A segment of one subfault with one point source, for the examples.\<close>

definition example_segment :: segment where
  "example_segment =
     \<lparr>plane_tensor = \<lparr>strike = 0, dip = 30, rake = 90, rupture_vel = 2.5\<rparr>,
      subfaults = \<lparr>delta_strike = 2, delta_dip = 2, delay_segment = 0,
                   stk_subfaults = 1, dip_subfaults = 1\<rparr>,
      epicenter_loc = \<lparr>hyp_stk = 1, hyp_dip = 1\<rparr>,
      hypocenter = None, neighbours = []\<rparr>"

section \<open>Properties\<close>

subsection \<open>Auxiliary facts on truncation and parity\<close>

lemma py_int_nonneg: "0 \<le> x \<Longrightarrow> 0 \<le> py_int x"
  by (simp add: py_int_def)

lemma py_int_ge_1: "1 \<le> x \<Longrightarrow> 1 \<le> py_int x"
  by (simp add: py_int_def le_floor_iff)


lemma force_odd_range:
  fixes n :: int
  assumes "lo \<le> n" "n \<le> hi" "odd hi"
  shows "odd (if n mod 2 = 0 then n + 1 else n)"
    and "lo \<le> (if n mod 2 = 0 then n + 1 else n)"
    and "(if n mod 2 = 0 then n + 1 else n) \<le> hi"
proof -
  show "odd (if n mod 2 = 0 then n + 1 else n)"
    by (simp add: even_iff_mod_2_eq_zero [symmetric])
  show "lo \<le> (if n mod 2 = 0 then n + 1 else n)"
    using assms by simp
  have "n \<noteq> hi" if "even n" using that assms(3) by auto
  then show "(if n mod 2 = 0 then n + 1 else n) \<le> hi"
    using assms(2) by (auto simp: even_iff_mod_2_eq_zero [symmetric])
qed

lemma sqrt_sq_div: "0 \<le> a \<Longrightarrow> sqrt (a * a / 225) = a / 15"
  by (rule real_sqrt_unique) (simp_all add: power2_eq_square)



lemma bind_err_Inr_left [simp]: "bind_err (Inr x) f = f x"
  by (simp add: bind_err_def)

subsection \<open>Coordinate transform\<close>



subsection \<open>The arithmetic that does not round\<close>

lemma exact_arith_simps [simp]:
  "fl_add exact_arith x y = x + y"
  "fl_sub exact_arith x y = x - y"
  "fl_mul exact_arith x y = x * y"
  "fl_div exact_arith x y = x / y"
  "fl_floor_div exact_arith x y = real_of_int \<lfloor>x / y\<rfloor>"
  "fl_pow exact_arith x y = (if y = 2 then x * x else x powr y)"
  "fl_sqrt exact_arith = sqrt"
  "fl_sin exact_arith = sin"
  "fl_cos exact_arith = cos"
  by (simp_all add: exact_arith_def)

subsection \<open>Default rupture velocity\<close>






subsection \<open>Point-source grid\<close>





subsection \<open>Fault-plane planner\<close>

text \<open>The planner, with its intermediate values named.\<close>

lemma fault_plane_properties_steps:
  assumes "dhs = max (depth t - wl) (0.8 * depth t) / sin (dip p * pi / 180)"
    and "ml = rupture_vel p * eq_time"
    and "mw = max (min 300 (min ml (2 * dhs))) 30"
    and "size0 = sqrt (mw * ml / 225)"
    and "s0 = min (py_int (ml / max size0 1)) 45"
    and "d0 = min (max (py_int (mw / max size0 1)) 3) 15"
    and "s1 = (if s0 mod 2 = 0 then s0 + 1 else s0)"
    and "d1 = (if d0 mod 2 = 0 then d0 + 1 else d0)"
  shows "fault_plane_properties eq_time t p wl =
      (if mw * ml / 225 < 0 then Inl ValueError
       else Inr \<lparr>delta_strike = 1.2 * ml / real_of_int s1,
                 delta_dip =
                   (if dhs < max size0 1
                    then max (mw / real_of_int d1) (1.9 * dhs)
                    else 0.99 * mw / real_of_int d1),
                 delay_segment = 0,
                 stk_subfaults = s1,
                 dip_subfaults = d1\<rparr>)"
  unfolding fault_plane_properties_def Let_def assms ..

text \<open>
  Two runs of the planner: an event of 8 s half-duration at 25 km depth on a plane dipping
  30 degrees with the default 2.5 km/s, and an 11 s event with a rupture velocity of 1 km/s.
\<close>

lemma planner_example:
  "fault_plane_properties (2 * 8 + 0.75 * 8)
     \<lparr>time_shift = 8, depth = 25, moment_mag = 1, lat = 0, lon = 0,
      centroid_lat = 0, centroid_lon = 0\<rparr>
     \<lparr>strike = 350, dip = 30, rake = 90, rupture_vel = 2.5\<rparr> 0
   = Inr \<lparr>delta_strike = 4.4, delta_dip = 3.63, delay_segment = 0,
          stk_subfaults = 15, dip_subfaults = 15\<rparr>"
proof -
  let ?t = "\<lparr>time_shift = 8, depth = 25, moment_mag = 1, lat = 0, lon = 0,
      centroid_lat = 0, centroid_lon = 0\<rparr>"
  let ?p = "\<lparr>strike = 350, dip = 30, rake = 90, rupture_vel = 2.5\<rparr>"
  have dhs: "(50::real) = max (depth ?t - 0) (0.8 * depth ?t) / sin (dip ?p * pi / 180)"
    by (simp add: sin_30)
  have ml: "(55::real) = rupture_vel ?p * (2 * 8 + 0.75 * 8)" by simp
  have mw: "(55::real) = max (min 300 (min 55 (2 * 50))) 30" by simp
  have size0: "(11 / 3 :: real) = sqrt (55 * 55 / 225)"
    using sqrt_sq_div [of 55] by simp
  have s0: "(15::int) = min (py_int (55 / max (11 / 3) 1)) 45"
    by (simp add: py_int_def)
  have d0: "(15::int) = min (max (py_int (55 / max (11 / 3) 1)) 3) 15"
    by (simp add: py_int_def)
  have s1: "(15::int) = (if (15::int) mod 2 = 0 then 15 + 1 else 15)" by simp
  show ?thesis
    by (subst fault_plane_properties_steps [OF dhs ml mw size0 s0 d0 s1 s1]) simp
qed

lemma planner_slow_example:
  "fault_plane_properties (2 * 11 + 0.75 * 11)
     \<lparr>time_shift = 11, depth = 25, moment_mag = 1, lat = 0, lon = 0,
      centroid_lat = 0, centroid_lon = 0\<rparr>
     \<lparr>strike = 350, dip = 30, rake = 90, rupture_vel = 1\<rparr> 0
   = Inr \<lparr>delta_strike = 2.42, delta_dip = 1.9965, delay_segment = 0,
          stk_subfaults = 15, dip_subfaults = 15\<rparr>"
proof -
  let ?t = "\<lparr>time_shift = 11, depth = 25, moment_mag = 1, lat = 0, lon = 0,
      centroid_lat = 0, centroid_lon = 0\<rparr>"
  let ?p = "\<lparr>strike = 350, dip = 30, rake = 90, rupture_vel = 1\<rparr>"
  have dhs: "(50::real) = max (depth ?t - 0) (0.8 * depth ?t) / sin (dip ?p * pi / 180)"
    by (simp add: sin_30)
  have ml: "(30.25::real) = rupture_vel ?p * (2 * 11 + 0.75 * 11)" by simp
  have mw: "(30.25::real) = max (min 300 (min 30.25 (2 * 50))) 30" by simp
  have size0: "(121 / 60 :: real) = sqrt (30.25 * 30.25 / 225)"
    using sqrt_sq_div [of "30.25"] by simp
  have s0: "(15::int) = min (py_int (30.25 / max (121 / 60) 1)) 45"
    by (simp add: py_int_def)
  have d0: "(15::int) = min (max (py_int (30.25 / max (121 / 60) 1)) 3) 15"
    by (simp add: py_int_def)
  have s1: "(15::int) = (if (15::int) mod 2 = 0 then 15 + 1 else 15)" by simp
  show ?thesis
    by (subst fault_plane_properties_steps [OF dhs ml mw size0 s0 d0 s1 s1]) simp
qed

text \<open>
  C2. For a plane with dip in (0,90] and a tensor with non-negative depth and time shift, the
  planner (called with \<open>eq_time = 2 * time_shift + 0.75 * time_shift\<close>, as
  \<^verbatim>\<open>create_finite_fault\<close> does) returns \<open>stk_subfaults\<close> and \<open>dip_subfaults\<close> that are both odd,
  with \<open>stk_subfaults\<close> in [1,45] and \<open>dip_subfaults\<close> in [3,15]; and it does return whenever
  the rupture velocity is not negative.
\<close>

theorem fault_plane_properties_counts:
  assumes "0 < dip p" "dip p \<le> 90" "0 \<le> depth t" "0 \<le> time_shift t"
  shows "(0 \<le> rupture_vel p \<longrightarrow>
            (\<exists>fd. fault_plane_properties (2 * time_shift t + 0.75 * time_shift t) t p wl = Inr fd))
         \<and> (\<forall>fd. fault_plane_properties (2 * time_shift t + 0.75 * time_shift t) t p wl = Inr fd
              \<longrightarrow> odd (stk_subfaults fd) \<and> odd (dip_subfaults fd)
                  \<and> 1 \<le> stk_subfaults fd \<and> stk_subfaults fd \<le> 45
                  \<and> 3 \<le> dip_subfaults fd \<and> dip_subfaults fd \<le> 15)"
proof -
  define eq_time where "eq_time = 2 * time_shift t + 0.75 * time_shift t"
  define dhs where
    "dhs = max (depth t - wl) (0.8 * depth t) / sin (dip p * pi / 180)"
  define ml where "ml = rupture_vel p * eq_time"
  define mw where "mw = max (min 300 (min ml (2 * dhs))) 30"
  define size0 where "size0 = sqrt (mw * ml / 225)"
  define s0 where "s0 = min (py_int (ml / max size0 1)) 45"
  define d0 where "d0 = min (max (py_int (mw / max size0 1)) 3) 15"
  define s1 where "s1 = (if s0 mod 2 = 0 then s0 + 1 else s0)"
  define d1 where "d1 = (if d0 mod 2 = 0 then d0 + 1 else d0)"
  note unfold = fault_plane_properties_steps
                  [OF dhs_def ml_def mw_def size0_def s0_def d0_def s1_def d1_def]
  have eq_nonneg: "0 \<le> eq_time"
    using assms(4) by (simp add: eq_time_def)
  have mw_pos: "30 \<le> mw"
    by (simp add: mw_def)
  have ok_iff: "\<not> mw * ml / 225 < 0 \<longleftrightarrow> 0 \<le> ml"
    using mw_pos by (simp add: not_less zero_le_mult_iff)
  have total: "\<not> mw * ml / 225 < 0" if "0 \<le> rupture_vel p"
    using that eq_nonneg ok_iff by (simp add: ml_def)
  have s0_range: "0 \<le> s0" "s0 \<le> 45" if "0 \<le> ml"
    using that by (auto simp: s0_def intro!: py_int_nonneg)
  have d0_range: "3 \<le> d0" "d0 \<le> 15"
    by (auto simp: d0_def)
  have stk_ok: "odd s1 \<and> 1 \<le> s1 \<and> s1 \<le> 45" if "0 \<le> ml"
  proof -
    have o: "odd s1" and u: "s1 \<le> 45" and l: "0 \<le> s1"
      using force_odd_range [of 0 s0 45] s0_range [OF that] by (simp_all add: s1_def)
    from o l have "1 \<le> s1"
      by (cases "s1 = 0") auto
    with o u show ?thesis by simp
  qed
  have dip_ok: "odd d1 \<and> 3 \<le> d1 \<and> d1 \<le> 15"
    using force_odd_range [of 3 d0 15] d0_range by (simp add: d1_def)
  show ?thesis
    unfolding eq_time_def [symmetric] unfold
    using total stk_ok dip_ok ok_iff by auto
qed

theorem fault_plane_properties_counts_witness:
  "0 < dip \<lparr>strike = 350, dip = 30, rake = 90, rupture_vel = 2.5\<rparr>
   \<and> dip \<lparr>strike = 350, dip = 30, rake = 90, rupture_vel = 2.5\<rparr> \<le> 90
   \<and> 0 \<le> depth \<lparr>time_shift = 8, depth = 25, moment_mag = 1, lat = 0, lon = 0,
                 centroid_lat = 0, centroid_lon = 0\<rparr>
   \<and> 0 \<le> time_shift \<lparr>time_shift = 8, depth = 25, moment_mag = 1, lat = 0, lon = 0,
                 centroid_lat = 0, centroid_lon = 0\<rparr>
   \<and> fault_plane_properties (2 * 8 + 0.75 * 8)
        \<lparr>time_shift = 8, depth = 25, moment_mag = 1, lat = 0, lon = 0,
         centroid_lat = 0, centroid_lon = 0\<rparr>
        \<lparr>strike = 350, dip = 30, rake = 90, rupture_vel = 2.5\<rparr> 0
      = Inr \<lparr>delta_strike = 4.4, delta_dip = 3.63, delay_segment = 0,
             stk_subfaults = 15, dip_subfaults = 15\<rparr>
   \<and> odd (15::int) \<and> (1::int) \<le> 15 \<and> (15::int) \<le> 45 \<and> (3::int) \<le> 15"
  using fault_plane_properties_counts
          [of "\<lparr>strike = 350, dip = 30, rake = 90, rupture_vel = 2.5\<rparr>"
              "\<lparr>time_shift = 8, depth = 25, moment_mag = 1, lat = 0, lon = 0,
                centroid_lat = 0, centroid_lon = 0\<rparr>" 0]
        planner_example
  by simp

subsection \<open>Rise-time estimator\<close>

text \<open>
  C6 as stated fails: the estimator adds 2 to a window count that can be 0. The planner's
  output for the 11 s event above (spacings 2.42 km and 1.9965 km) gives
  \<open>trunc(1.5 * 2.42 / 4) = 0\<close> and so \<open>windows = 2\<close>.
\<close>

theorem rise_time_windows_counterexample:
  "\<not> 3 \<le> windows (rise_time_parameters
        \<lparr>time_shift = 11, depth = 25, moment_mag = 1, lat = 0, lon = 0,
         centroid_lat = 0, centroid_lon = 0\<rparr>
        \<lparr>delta_strike = 2.42, delta_dip = 1.9965, delay_segment = 0,
         stk_subfaults = 15, dip_subfaults = 15\<rparr> [])"
proof -
  have "\<lfloor>1.5 * 2.42 / 4 :: real\<rfloor> = 0" by (simp add: floor_eq_iff)
  then show ?thesis
    by (simp add: rise_time_parameters_def py_int_def Let_def)
qed

text \<open>
  C6, amended. For spacings whose maximum is not negative the estimator returns
  \<open>windows \<ge> 2\<close> (the branch-computed count plus the padding of 2), \<open>windows \<ge> 3\<close> when the
  larger spacing is at least 16/3 km, and \<open>min_rise = delta_rise\<close>.
\<close>

theorem rise_time_windows:
  assumes "0 \<le> max (delta_strike fd) (delta_dip fd)"
  shows "2 \<le> windows (rise_time_parameters t fd data_type)
         \<and> (16 / 3 \<le> max (delta_strike fd) (delta_dip fd)
              \<longrightarrow> 3 \<le> windows (rise_time_parameters t fd data_type))
         \<and> min_rise (rise_time_parameters t fd data_type)
             = delta_rise (rise_time_parameters t fd data_type)"
proof -
  let ?m = "max (delta_strike fd) (delta_dip fd)"
  have n2: "0 \<le> py_int (1.5 * ?m / 2)" and n4: "0 \<le> py_int (1.5 * ?m / 4)"
    and n8: "0 \<le> py_int (1.5 * ?m / 8)" and n3: "0 \<le> py_int (1.5 * ?m / 3)"
    using assms by (auto intro!: py_int_nonneg)
  have nts: "0 \<le> py_int (1.5 * ?m * 6 / time_shift t)" if "24 < time_shift t"
    using assms that by (auto intro!: py_int_nonneg)
  have g2: "1 \<le> py_int (1.5 * ?m / 2)" and g4: "1 \<le> py_int (1.5 * ?m / 4)"
    and g8: "1 \<le> py_int (1.5 * ?m / 8)" if "16 / 3 \<le> ?m"
    using that by (auto intro!: py_int_ge_1)
  have gts: "1 \<le> py_int (1.5 * ?m * 6 / time_shift t)"
    if "16 / 3 \<le> ?m" "24 < time_shift t" "time_shift t < 48"
  proof (rule py_int_ge_1)
    have "time_shift t \<le> 48" using that by simp
    also have "48 \<le> 1.5 * ?m * 6" using that(1) by simp
    finally show "1 \<le> 1.5 * ?m * 6 / time_shift t" using that(2) by (simp add: le_divide_eq)
  qed
  show ?thesis
    using n2 n4 n8 n3 nts g2 g4 g8 gts
    by (auto simp: rise_time_parameters_def Let_def split: if_splits)
qed

theorem rise_time_windows_witness:
  "0 \<le> max (delta_strike \<lparr>delta_strike = 4.4, delta_dip = 3.63\<rparr>)
           (delta_dip \<lparr>delta_strike = 4.4, delta_dip = 3.63\<rparr>)
   \<and> rise_time_parameters
        \<lparr>time_shift = 8, depth = 25, moment_mag = 1, lat = 0, lon = 0,
         centroid_lat = 0, centroid_lon = 0\<rparr>
        \<lparr>delta_strike = 4.4, delta_dip = 3.63\<rparr> []
      = \<lparr>min_rise = 1, delta_rise = 1, windows = 5\<rparr>"
proof -
  have f: "\<lfloor>1.5 * 4.4 / 2 :: real\<rfloor> = 3" by (simp add: floor_eq_iff)
  from rise_time_windows
         [of "\<lparr>delta_strike = 4.4, delta_dip = 3.63\<rparr>"
             "\<lparr>time_shift = 8, depth = 25, moment_mag = 1, lat = 0, lon = 0,
               centroid_lat = 0, centroid_lon = 0\<rparr>" "[]"]
  show ?thesis
    using f by (simp add: rise_time_parameters_def py_int_def Let_def)
qed

subsection \<open>Hypocenter locator\<close>





lemma exact_linalg_simps [simp]:
  "np_inv exact_linalg ((a, b), (c, d)) =
     (if a * d - b * c = 0 then Inl LinAlgError
      else Inr ((d / (a * d - b * c), - b / (a * d - b * c)),
                (- c / (a * d - b * c), a / (a * d - b * c))))"
  "np_dot exact_linalg ((a, b), (c, d)) (v1, v2) = (a * v1 + b * v2, c * v1 + d * v2)"
  by (simp_all add: exact_linalg_def)

lemma angle_30: "30 * (pi / 180) = pi / 6" "30 * pi / 180 = pi / 6"
  by simp_all

text \<open>
  Without rounding, for a plane that strikes north through an epicenter on the equator,
  the centroid lies \<open>111.19\<close> km along strike for every degree of latitude.
\<close>

lemma centroid_offset_north:
  assumes "strike p = 0" and "lat t = 0" and "cos (dip p * (pi / 180)) = c" and "c \<noteq> 0"
  shows "centroid_offset exact_arith exact_linalg p t
         = Inr (111.19 * centroid_lat t, 111.19 / c * (centroid_lon t - lon t))"
proof -
  have m: "np_inv exact_linalg ((1 / 111.19, 0), (0, c / 111.19))
           = Inr ((111.19, 0), (0, 111.19 / c))"
    using assms(4) by (simp add: field_simps)
  show ?thesis
    unfolding centroid_offset_def Let_def exact_arith_simps assms
    using m by (simp add: bind_err_def)
qed

lemma hypocenter_location2_steps:
  assumes "point_sources_def fp rt (rupture_vel p)
             \<lparr>delta_strike = delta_strike fd, delta_dip = delta_dip fd\<rparr> = Inr g"
    and "centroid_offset fp la p t = Inr (x, y)"
    and "delta_strike fd \<noteq> 0"
    and "sd = surface_dist fp t p wl"
    and "hd0 = py_int (real_of_int (dip_subfaults fd) / 2) + 1"
    and "hs = py_int (fl_floor_div fp (- x) (delta_strike fd))
                + py_int (real_of_int (stk_subfaults fd) / 2) + 1"
  shows "hypocenter_location2 fp la p fd t wl rt =
      bind_err
        (if reaches_surface fp (delta_dip fd) (dip_subfaults fd) sd
         then (case hyp_dip_scan (above_surface fp (delta_dip fd) sd) [0..hd0 - 1] None of
                 None \<Rightarrow> Inl UnboundLocalError | Some j \<Rightarrow> Inr j)
         else Inr hd0)
        (\<lambda>hd1. Inr \<lparr>hyp_stk = (if stk_subfaults fd > 1
                                then max 1 (min (stk_subfaults fd) hs) else 1),
                     hyp_dip = (if dip_subfaults fd > 1 then hd1 else 1)\<rparr>)"
  unfolding hypocenter_location2_def Let_def assms bind_err_Inr_left prod.case
  using assms(3) by simp




lemma grid_example:
  "point_sources_def exact_arith \<lparr>min_rise = 1, delta_rise = 1, windows = 5\<rparr> 2.5
        \<lparr>delta_strike = 4.4, delta_dip = 3.63\<rparr>
       = Inr \<lparr>strike_ps = 3, dip_ps = 3, dx = 4.4 / 3, dy = 3.63 / 3\<rparr>"
proof -
  have f1: "\<lfloor>44 / 25 :: real\<rfloor> = 1" by linarith
  have f2: "\<lfloor>363 / 250 :: real\<rfloor> = 1" by linarith
  show ?thesis
    by (simp add: point_sources_def_def py_int_def Let_def force_odd_def f1 f2)
qed





lemma locator_default:
  "hypocenter_location2 exact_arith exact_linalg
      \<lparr>strike = 0, dip = 30, rake = 90, rupture_vel = 2.5\<rparr>
      \<lparr>delta_strike = 4.4, delta_dip = 3.63, delay_segment = 0,
       stk_subfaults = 15, dip_subfaults = 15\<rparr>
      \<lparr>time_shift = 8, depth = 25, moment_mag = 1, lat = 0, lon = 0,
       centroid_lat = 0, centroid_lon = 0, \<dots> = m\<rparr> 0
      \<lparr>min_rise = 1, delta_rise = 1, windows = 5\<rparr>
   = Inr \<lparr>hyp_stk = 8, hyp_dip = 8\<rparr>"
proof -
  let ?p = "\<lparr>strike = 0, dip = 30, rake = 90, rupture_vel = 2.5\<rparr>"
  let ?fd = "\<lparr>delta_strike = 4.4, delta_dip = 3.63, delay_segment = 0,
       stk_subfaults = 15, dip_subfaults = 15\<rparr>"
  let ?t = "\<lparr>time_shift = 8, depth = 25, moment_mag = 1, lat = 0, lon = 0,
       centroid_lat = 0, centroid_lon = 0, \<dots> = m\<rparr>"
  have g: "point_sources_def exact_arith \<lparr>min_rise = 1, delta_rise = 1, windows = 5\<rparr>
      (rupture_vel ?p) \<lparr>delta_strike = delta_strike ?fd, delta_dip = delta_dip ?fd\<rparr>
      = Inr \<lparr>strike_ps = 3, dip_ps = 3, dx = 4.4 / 3, dy = 3.63 / 3\<rparr>"
    using grid_example by simp
  have off: "centroid_offset exact_arith exact_linalg ?p ?t = Inr (0, 0)"
    using centroid_offset_north [of ?p ?t "sqrt 3 / 2"] by (simp add: angle_30 cos_30)
  have sd: "Finite 50 = surface_dist exact_arith ?t ?p 0"
    by (simp add: surface_dist_def np_div_def angle_30 sin_30)
  have fl: "\<lfloor>15 / 2 :: real\<rfloor> = 7" by linarith
  have hd0: "(8::int) = py_int (real_of_int (dip_subfaults ?fd) / 2) + 1"
    using fl by (simp add: py_int_def)
  have hs: "(8::int) = py_int (fl_floor_div exact_arith (- 0) (delta_strike ?fd))
                + py_int (real_of_int (stk_subfaults ?fd) / 2) + 1"
    using fl by (simp add: py_int_def)
  have nz: "delta_strike ?fd \<noteq> 0" by simp
  have reach: "\<not> reaches_surface exact_arith (delta_dip ?fd) (dip_subfaults ?fd) (Finite 50)"
    by (simp add: reaches_surface_def np_greater_def)
  show ?thesis
    unfolding hypocenter_location2_steps [OF g off nz sd hd0 hs]
    using reach by simp
qed







end
